theory Spec2Isabelle
  imports Main "HOL-Library.Word"
begin

unbundle bit_operations_syntax

section \<open>Machine types and constants\<close>

text \<open>
  The sources are \<open>src/unnamed/part_000\<close> (the RISC-V stage entry code, followed by the
  SMP and inter-processor interrupt code) and \<open>asm/irq_pipeline.h\<close>. A C \<open>unsigned long\<close>
  is a 64-bit word (RV64), \<open>int\<close> and \<open>unsigned int\<close> are 32-bit words; signed
  comparisons are written \<open><s\<close>.
\<close>

type_synonym ulong = "64 word"
type_synonym cint = "32 word"
type_synonym uint = "32 word"

text \<open>\<open>enum ipi_message_type\<close>: the values of the enumerators, in declaration order.\<close>

definition IPI_RESCHEDULE :: nat where "IPI_RESCHEDULE = 0"
definition IPI_CALL_FUNC :: nat where "IPI_CALL_FUNC = 1"
definition IPI_CPU_STOP :: nat where "IPI_CPU_STOP = 2"
definition IPI_CPU_CRASH_STOP :: nat where "IPI_CPU_CRASH_STOP = 3"
definition IPI_IRQ_WORK :: nat where "IPI_IRQ_WORK = 4"
definition IPI_TIMER :: nat where "IPI_TIMER = 5"
definition IPI_MAX :: nat where "IPI_MAX = 6"

section \<open>Hart identifiers\<close>

text \<open>
  Modelled from the spec: \<open>ENOENT\<close> is declared outside the given sources
  (\<open>errno-base.h\<close>). The spec has the lookup fail with "-ENOENT", a "not found" result; the
  errno value is 2.
\<close>

definition ENOENT :: int where "ENOENT = 2"

text \<open>
  \<open>__cpuid_to_hartid_map[NR_CPUS]\<close> is a list of \<open>NR_CPUS\<close> words; its initialiser fills
  every slot with \<open>INVALID_HARTID\<close>, and \<open>smp_setup_processor_id\<close> stores the boot hart
  in slot 0. \<open>NR_CPUS\<close> and \<open>INVALID_HARTID\<close> are declared outside the given sources and
  are parameters.
\<close>

definition cpuid_to_hartid_map_init :: "nat \<Rightarrow> ulong \<Rightarrow> ulong list" where
  "cpuid_to_hartid_map_init NR_CPUS INVALID_HARTID = replicate NR_CPUS INVALID_HARTID"

definition smp_setup_processor_id :: "ulong \<Rightarrow> ulong list \<Rightarrow> ulong list" where
  "smp_setup_processor_id boot_cpu_hartid m = m[0 := boot_cpu_hartid]"

text \<open>
  The \<open>for\<close> loop of \<open>riscv_hartid_to_cpuid\<close>, from index \<open>i\<close>. The result is a C \<open>int\<close>;
  \<open>i\<close> stays below \<open>NR_CPUS\<close>, so no arithmetic on it can overflow and it is an \<open>int\<close> here.
\<close>

function hartid_scan :: "ulong list \<Rightarrow> ulong \<Rightarrow> nat \<Rightarrow> int" where
  "hartid_scan m hartid i =
     (if i < length m
      then (if m ! i = hartid then int i else hartid_scan m hartid (Suc i))
      else - ENOENT)"
  by pat_completeness auto
termination
  by (relation "measure (\<lambda>(m, hartid, i). length m - i)") auto

definition riscv_hartid_to_cpuid :: "ulong list \<Rightarrow> ulong \<Rightarrow> int" where
  "riscv_hartid_to_cpuid m hartid = hartid_scan m hartid 0"

section \<open>Timer register snapshot\<close>

text \<open>
  \<open>struct pt_regs\<close> is declared outside the given sources (\<open>asm/ptrace.h\<close>). Its fields
  are the thirty-five that \<open>arch_save_timer_regs\<close> names and \<open>t6\<close>: \<open>epc\<close> and the integer
  registers \<open>x1\<close> to \<open>x31\<close> in their order, then the four CSR copies.
\<close>

record pt_regs =
  epc :: ulong
  ra :: ulong
  sp :: ulong
  gp :: ulong
  tp :: ulong
  t0 :: ulong
  t1 :: ulong
  t2 :: ulong
  s0 :: ulong
  s1 :: ulong
  a0 :: ulong
  a1 :: ulong
  a2 :: ulong
  a3 :: ulong
  a4 :: ulong
  a5 :: ulong
  a6 :: ulong
  a7 :: ulong
  s2 :: ulong
  s3 :: ulong
  s4 :: ulong
  s5 :: ulong
  s6 :: ulong
  s7 :: ulong
  s8 :: ulong
  s9 :: ulong
  s10 :: ulong
  s11 :: ulong
  t3 :: ulong
  t4 :: ulong
  t5 :: ulong
  t6 :: ulong
  status :: ulong
  badaddr :: ulong
  cause :: ulong
  orig_a0 :: ulong

text \<open>
  Frames live in a store indexed by address, so that \<open>dst\<close> and \<open>src\<close> may be the same
  frame. One C statement \<open>dst->f = src->f\<close> reads the store as the previous statements
  left it.
\<close>

type_synonym regs_store = "nat \<Rightarrow> pt_regs"

definition copy_field ::
  "((ulong \<Rightarrow> ulong) \<Rightarrow> pt_regs \<Rightarrow> pt_regs) \<Rightarrow> (pt_regs \<Rightarrow> ulong) \<Rightarrow> nat \<Rightarrow> nat \<Rightarrow> regs_store \<Rightarrow> regs_store"
where
  "copy_field upd get dst src h = h(dst := upd (\<lambda>_. get (h src)) (h dst))"

definition arch_save_timer_regs :: "nat \<Rightarrow> nat \<Rightarrow> regs_store \<Rightarrow> regs_store" where
  "arch_save_timer_regs dst src h =
     fold (\<lambda>stmt. stmt dst src)
       [copy_field epc_update epc, copy_field ra_update ra, copy_field sp_update sp,
        copy_field gp_update gp, copy_field tp_update tp, copy_field t0_update t0,
        copy_field t1_update t1, copy_field t2_update t2, copy_field s0_update s0,
        copy_field s1_update s1, copy_field a0_update a0, copy_field a1_update a1,
        copy_field a2_update a2, copy_field a3_update a3, copy_field a4_update a4,
        copy_field a5_update a5, copy_field a6_update a6, copy_field a7_update a7,
        copy_field s2_update s2, copy_field s3_update s3, copy_field s4_update s4,
        copy_field s5_update s5, copy_field s6_update s6, copy_field s7_update s7,
        copy_field s8_update s8, copy_field s9_update s9, copy_field s10_update s10,
        copy_field s11_update s11, copy_field t3_update t3, copy_field t4_update t4,
        copy_field t5_update t5, copy_field status_update status,
        copy_field badaddr_update badaddr, copy_field cause_update cause,
        copy_field orig_a0_update orig_a0]
       h"

section \<open>Build configuration\<close>

text \<open>
  The preprocessor and \<open>IS_ENABLED\<close> switches the modelled functions depend on.
  \<open>irqs_pipelined()\<close> is \<open>CONFIG_IRQ_PIPELINE\<close> and \<open>irq_pipeline_debug()\<close> is
  \<open>CONFIG_DEBUG_IRQ_PIPELINE\<close>.
\<close>

record kconfig =
  irqs_pipelined :: bool
  irq_pipeline_debug :: bool
  generic_clockevents_broadcast :: bool
  kexec_core :: bool
  hotplug_cpu :: bool
  tiny_rcu :: bool
  riscv_m_mode :: bool

section \<open>Inter-processor interrupts\<close>

text \<open>
  Calls into the rest of the kernel are recorded as events, in program order. A CPU mask
  is the set of the CPU numbers whose bit is set; a pointer to an interrupt descriptor is
  its address.
\<close>

datatype warn_site =
    Oob_ipi_out_of_range
  | Virq_base_already_set
  | Fewer_lines_than_IPI_MAX
  | Request_percpu_irq_failed
  | No_virq_base

datatype event =
    Scheduler_ipi
  | Generic_smp_call_function_interrupt
  | Irq_work_run
  | Tick_receive_broadcast
  | Pr_warn_unhandled_IPI nat int
  | Crash_save_cpu nat
  | Local_irq_disable_full
  | Cpu_ops_cpu_stop nat
  | WARN_ON warn_site
  | WARN_ON_ONCE warn_site
  | Pr_crit_stopping_secondary_CPUs
  | Pr_warn_failed_to_stop "nat set"
  | Wmb
  | Ipi_send_mask nat "nat set"
  | Request_percpu_irq cint
  | Irq_set_status_flags_HIDDEN cint
  | Enable_percpu_irq cint
  | Disable_percpu_irq cint

text \<open>
  The file-scope and per-CPU variables of \<open>smp.c\<close>, the online mask, and the time spent
  in \<open>udelay\<close>. \<open>ipi_desc\<close> and \<open>ipi_counts\<close> have \<open>IPI_MAX\<close> slots: an index is checked
  against \<open>IPI_MAX\<close> wherever the caller chooses it.
\<close>

record smp =
  ipi_virq_base :: cint
  nr_ipi :: cint
  ipi_desc :: "nat \<Rightarrow> nat"
  ipi_messages :: "nat \<Rightarrow> ulong"
  ipi_counts :: "nat \<Rightarrow> nat \<Rightarrow> uint"
  riscv_ipi_for_rfence :: bool
  cpus_stopped :: bool
  waiting_for_crash_ipi :: cint
  cpu_online_mask :: "nat set"
  elapsed_us :: nat
  events :: "event list"

text \<open>
  How a call ends: it returns, or the CPU never leaves it (it spins in
  \<open>wait_for_interrupt\<close>), or the behaviour is undefined (an index past the end of an
  array, \<open>unreachable()\<close>).
\<close>

datatype 'a outcome = Returned 'a | Parked 'a | Fault

definition log :: "event \<Rightarrow> smp \<Rightarrow> smp" where
  "log e s = s\<lparr>events := events s @ [e]\<rparr>"

definition ipi_stop :: "nat \<Rightarrow> smp \<Rightarrow> smp outcome" where
  "ipi_stop cpu s = Parked (s\<lparr>cpu_online_mask := cpu_online_mask s - {cpu}\<rparr>)"

text \<open>\<open>cpu_has_hotplug\<close> is a parameter: the CPUs whose \<open>cpu_ops\<close> have a stop hook.\<close>

definition ipi_cpu_crash_stop :: "kconfig \<Rightarrow> (nat \<Rightarrow> bool) \<Rightarrow> nat \<Rightarrow> smp \<Rightarrow> smp outcome" where
  "ipi_cpu_crash_stop cfg cpu_has_hotplug cpu s =
     (if kexec_core cfg
      then (let s1 = log (Crash_save_cpu cpu) s;
                s2 = s1\<lparr>waiting_for_crash_ipi := waiting_for_crash_ipi s1 - 1\<rparr>;
                s3 = log Local_irq_disable_full s2;
                s4 = (if hotplug_cpu cfg \<and> cpu_has_hotplug cpu
                      then log (Cpu_ops_cpu_stop cpu) s3 else s3)
            in Parked s4)
      else Fault)"

text \<open>
  \<open>__handle_IPI(irq, data)\<close>: the switch is on \<open>irq - ipi_virq_base\<close>. The \<open>IPI_TIMER\<close>
  case exists only under \<open>CONFIG_GENERIC_CLOCKEVENTS_BROADCAST\<close>.
\<close>

definition raw_handle_IPI :: "kconfig \<Rightarrow> (nat \<Rightarrow> bool) \<Rightarrow> nat \<Rightarrow> cint \<Rightarrow> smp \<Rightarrow> smp outcome" where
  "raw_handle_IPI cfg cpu_has_hotplug cpu irq s =
     (let ipi = irq - ipi_virq_base s in
      if ipi = of_nat IPI_RESCHEDULE then Returned (log Scheduler_ipi s)
      else if ipi = of_nat IPI_CALL_FUNC then Returned (log Generic_smp_call_function_interrupt s)
      else if ipi = of_nat IPI_CPU_STOP then ipi_stop cpu s
      else if ipi = of_nat IPI_CPU_CRASH_STOP then ipi_cpu_crash_stop cfg cpu_has_hotplug cpu s
      else if ipi = of_nat IPI_IRQ_WORK then Returned (log Irq_work_run s)
      else if generic_clockevents_broadcast cfg \<and> ipi = of_nat IPI_TIMER
        then Returned (log Tick_receive_broadcast s)
      else Returned (log (Pr_warn_unhandled_IPI cpu (sint ipi)) s))"

text \<open>
  Modelled from the spec: \<open>ffs\<close> is outside the given sources; the handler is to
  "extract the lowest set bit as the reason", so \<open>ffs x\<close> is one more than the index of
  the lowest set bit of the \<open>int\<close> \<open>x\<close>, and 0 when no bit is set.
\<close>

definition ffs :: "cint \<Rightarrow> cint" where
  "ffs x = (case find (bit x) [0..<32] of None \<Rightarrow> 0 | Some i \<Rightarrow> of_nat (Suc i))"

text \<open>\<open>clear_bit(nr, pmsg)\<close> and \<open>__this_cpu_inc(ipi_counts[nr])\<close> on the CPU \<open>cpu\<close>.\<close>

definition clear_pending :: "nat \<Rightarrow> nat \<Rightarrow> smp \<Rightarrow> smp" where
  "clear_pending cpu nr s =
     s\<lparr>ipi_messages := (ipi_messages s)(cpu := unset_bit nr (ipi_messages s cpu))\<rparr>"

definition count_ipi :: "nat \<Rightarrow> nat \<Rightarrow> smp \<Rightarrow> smp" where
  "count_ipi cpu nr s =
     s\<lparr>ipi_counts := (ipi_counts s)(cpu := (ipi_counts s cpu)(nr := ipi_counts s cpu nr + 1))\<rparr>"

text \<open>
  \<open>handle_IPI\<close> of the \<open>CONFIG_IRQ_PIPELINE\<close> build, run on the CPU \<open>cpu\<close>. \<open>ffs\<close> takes
  an \<open>int\<close>, so it sees the low 32 bits of the mask. \<open>ipi_counts\<close> has \<open>IPI_MAX\<close> slots:
  a larger \<open>ipinr\<close> writes past its end.
\<close>

function handle_IPI :: "kconfig \<Rightarrow> (nat \<Rightarrow> bool) \<Rightarrow> nat \<Rightarrow> smp \<Rightarrow> smp outcome" where
  "handle_IPI cfg cpu_has_hotplug cpu s =
     (if ipi_messages s cpu = 0 then Returned s
      else (let ipinr = ffs (ucast (ipi_messages s cpu)) - 1 in
        if IPI_MAX \<le> unat ipinr then Fault
        else (case raw_handle_IPI cfg cpu_has_hotplug cpu ipinr
                     (count_ipi cpu (unat ipinr) (clear_pending cpu (unat ipinr) s)) of
                Returned s' \<Rightarrow> handle_IPI cfg cpu_has_hotplug cpu s'
              | Parked s' \<Rightarrow> Parked s'
              | Fault \<Rightarrow> Fault)))"
  by pat_completeness auto
termination
proof (relation "measure (\<lambda>(cfg, cpu_has_hotplug, cpu, s). unat (ipi_messages s cpu))")
  show "wf (measure (\<lambda>(cfg, cpu_has_hotplug, cpu, s). unat (ipi_messages s cpu)))"
    by simp
next
  fix cfg :: kconfig and cpu_has_hotplug :: "nat \<Rightarrow> bool" and cpu :: nat and s s' :: smp
    and ipinr :: cint
  let ?m = "ipi_messages s cpu"
  assume ipinr: "ipinr = ffs (ucast ?m) - 1" and small: "\<not> IPI_MAX \<le> unat ipinr"
    and ret: "raw_handle_IPI cfg cpu_has_hotplug cpu ipinr
        (count_ipi cpu (unat ipinr) (clear_pending cpu (unat ipinr) s)) = Returned s'"
  have msgs: "ipi_messages s' cpu = unset_bit (unat ipinr) ?m"
    using ret
    by (auto simp: raw_handle_IPI_def Let_def log_def ipi_stop_def ipi_cpu_crash_stop_def
        count_ipi_def clear_pending_def split: if_splits)
  have set: "bit ?m (unat ipinr)"
  proof (cases "find (bit (ucast ?m :: cint)) [0..<32]")
    case None
    then have "ipinr = - 1" by (simp add: ipinr ffs_def)
    with small show ?thesis
      by (simp add: IPI_MAX_def unsigned_minus_1_eq_mask mask_eq_exp_minus_1)
  next
    case (Some i)
    then have i: "i < 32" "bit (ucast ?m :: cint) i" by (auto simp: find_Some_iff)
    from Some have "ipinr = of_nat i" by (simp add: ipinr ffs_def)
    with i(1) have "unat ipinr = i" by (simp add: of_nat_inverse)
    with i(2) show ?thesis by (simp add: bit_ucast_iff)
  qed
  have "unset_bit (unat ipinr) ?m \<le> ?m"
    by (simp add: unset_bit_eq_and_not word_and_le2)
  moreover have "unset_bit (unat ipinr) ?m \<noteq> ?m"
  proof
    assume "unset_bit (unat ipinr) ?m = ?m"
    then have "bit (unset_bit (unat ipinr) ?m) (unat ipinr) = bit ?m (unat ipinr)" by simp
    with set show False by (simp add: bit_unset_bit_iff)
  qed
  ultimately have "unset_bit (unat ipinr) ?m < ?m" by simp
  then have "unat (unset_bit (unat ipinr) ?m) < unat ?m" by (simp add: word_less_nat_alt)
  with msgs show "((cfg, cpu_has_hotplug, cpu, s'), (cfg, cpu_has_hotplug, cpu, s))
      \<in> measure (\<lambda>(cfg, cpu_has_hotplug, cpu, s). unat (ipi_messages s cpu))"
    by simp
qed

declare handle_IPI.simps [simp del]

text \<open>\<open>handle_IPI\<close> of the build without \<open>CONFIG_IRQ_PIPELINE\<close>.\<close>

definition handle_IPI_unpipelined :: "kconfig \<Rightarrow> (nat \<Rightarrow> bool) \<Rightarrow> nat \<Rightarrow> cint \<Rightarrow> smp \<Rightarrow> smp outcome" where
  "handle_IPI_unpipelined cfg cpu_has_hotplug cpu irq s = raw_handle_IPI cfg cpu_has_hotplug cpu irq s"

subsection \<open>Sending\<close>

text \<open>\<open>OOB_NR_IPI\<close> and \<open>OOB_IPI_OFFSET\<close> of \<open>asm/irq_pipeline.h\<close>.\<close>

definition OOB_NR_IPI :: nat where "OOB_NR_IPI = 3"
definition OOB_IPI_OFFSET :: nat where "OOB_IPI_OFFSET = 1"

text \<open>
  \<open>__send_ipi_mask\<close> and \<open>__send_ipi_single\<close> hand the descriptor \<open>ipi_desc[op]\<close> and
  the target mask to \<open>__ipi_send_mask\<close>.
\<close>

definition raw_send_ipi_mask :: "nat set \<Rightarrow> nat \<Rightarrow> smp \<Rightarrow> smp" where
  "raw_send_ipi_mask cpumask op s = log (Ipi_send_mask (ipi_desc s op) cpumask) s"

definition raw_send_ipi_single :: "nat \<Rightarrow> nat \<Rightarrow> smp \<Rightarrow> smp" where
  "raw_send_ipi_single cpu op s = log (Ipi_send_mask (ipi_desc s op) {cpu}) s"

text \<open>
  \<open>send_ipi_mask\<close> and \<open>send_ipi_single\<close>, in both builds. In the pipelined build
  \<open>for_each_cpu\<close> sets the bit \<open>op\<close> in the pending mask of every CPU of \<open>mask\<close>, then
  line 0 is raised.
\<close>

definition send_ipi_mask :: "kconfig \<Rightarrow> nat set \<Rightarrow> nat \<Rightarrow> smp \<Rightarrow> smp" where
  "send_ipi_mask cfg cpumask op s =
     (if irqs_pipelined cfg
      then (let s1 = s\<lparr>ipi_messages :=
                        (\<lambda>cpu. if cpu \<in> cpumask then set_bit op (ipi_messages s cpu)
                               else ipi_messages s cpu)\<rparr>;
                s2 = log Wmb s1
            in raw_send_ipi_mask cpumask 0 s2)
      else raw_send_ipi_mask cpumask op s)"

definition send_ipi_single :: "kconfig \<Rightarrow> nat \<Rightarrow> nat \<Rightarrow> smp \<Rightarrow> smp" where
  "send_ipi_single cfg cpu op s =
     (if irqs_pipelined cfg
      then (let s1 = s\<lparr>ipi_messages :=
                        (ipi_messages s)(cpu := set_bit op (ipi_messages s cpu))\<rparr>;
                s2 = log Wmb s1
            in raw_send_ipi_single cpu 0 s2)
      else raw_send_ipi_single cpu op s)"

text \<open>
  \<open>irq_send_oob_ipi\<close> (pipelined build only). \<open>op\<close> is an \<open>unsigned int\<close>: the
  subtraction wraps. \<open>ipi_desc\<close> has \<open>IPI_MAX\<close> slots.
\<close>

definition irq_send_oob_ipi :: "kconfig \<Rightarrow> uint \<Rightarrow> nat set \<Rightarrow> smp \<Rightarrow> smp outcome" where
  "irq_send_oob_ipi cfg irq cpumask s =
     (let op = irq - ipi_virq_base s in
      if irq_pipeline_debug cfg \<and>
         (op < of_nat OOB_IPI_OFFSET \<or> of_nat (OOB_IPI_OFFSET + OOB_NR_IPI) \<le> op)
      then Returned (log (WARN_ON Oob_ipi_out_of_range) s)
      else if unat op < IPI_MAX then Returned (raw_send_ipi_mask cpumask (unat op) s)
      else Fault)"

subsection \<open>Registration of the interrupt range\<close>

text \<open>
  Each \<open>for (i = 0; i < nr_ipi; i++)\<close> runs over \<open>0, ..., nr_ipi - 1\<close>, and not at all
  when \<open>nr_ipi\<close> is not positive; \<open>nr_ipi\<close> does not change while it runs.
\<close>

definition ipi_indices :: "smp \<Rightarrow> nat list" where
  "ipi_indices s = [0..<nat (sint (nr_ipi s))]"

definition riscv_ipi_enable :: "smp \<Rightarrow> smp" where
  "riscv_ipi_enable s =
     (if ipi_virq_base s = 0 then log (WARN_ON_ONCE No_virq_base) s
      else fold (\<lambda>i. log (Enable_percpu_irq (ipi_virq_base s + of_nat i))) (ipi_indices s) s)"

definition riscv_ipi_disable :: "smp \<Rightarrow> smp" where
  "riscv_ipi_disable s =
     (if ipi_virq_base s = 0 then log (WARN_ON_ONCE No_virq_base) s
      else fold (\<lambda>i. log (Disable_percpu_irq (ipi_virq_base s + of_nat i))) (ipi_indices s) s)"

definition riscv_ipi_have_virq_range :: "smp \<Rightarrow> bool" where
  "riscv_ipi_have_virq_range s = (ipi_virq_base s \<noteq> 0)"

text \<open>
  One turn of the request loop of \<open>riscv_ipi_set_virq_range\<close>. \<open>irq_to_desc\<close> and the
  error code of \<open>request_percpu_irq\<close> belong to the interrupt core and are parameters.
\<close>

definition request_ipi :: "(cint \<Rightarrow> nat) \<Rightarrow> (cint \<Rightarrow> cint) \<Rightarrow> cint \<Rightarrow> nat \<Rightarrow> smp \<Rightarrow> smp" where
  "request_ipi irq_to_desc request_percpu_irq inband_nr_ipi i s =
     (let irq = ipi_virq_base s + of_nat i;
          s1 = (if of_nat i <s inband_nr_ipi
                then (let s' = log (Request_percpu_irq irq) s in
                      if request_percpu_irq irq \<noteq> 0
                      then log (WARN_ON Request_percpu_irq_failed) s' else s')
                else s);
          s2 = s1\<lparr>ipi_desc := (ipi_desc s1)(i := irq_to_desc irq)\<rparr>
      in log (Irq_set_status_flags_HIDDEN irq) s2)"

definition riscv_ipi_set_virq_range ::
  "kconfig \<Rightarrow> (cint \<Rightarrow> nat) \<Rightarrow> (cint \<Rightarrow> cint) \<Rightarrow> cint \<Rightarrow> cint \<Rightarrow> bool \<Rightarrow> smp \<Rightarrow> smp"
where
  "riscv_ipi_set_virq_range cfg irq_to_desc request_percpu_irq virq nr use_for_rfence s =
     (if ipi_virq_base s \<noteq> 0 then log (WARN_ON Virq_base_already_set) s
      else (let s1 = (if nr <s of_nat IPI_MAX then log (WARN_ON Fewer_lines_than_IPI_MAX) s
                      else s);
                s2 = s1\<lparr>nr_ipi := (if nr <s of_nat IPI_MAX then nr else of_nat IPI_MAX)\<rparr>;
                s3 = s2\<lparr>ipi_virq_base := virq\<rparr>;
                inband_nr_ipi = (if irqs_pipelined cfg then 1 else nr_ipi s3);
                s4 = fold (request_ipi irq_to_desc request_percpu_irq inband_nr_ipi)
                       (ipi_indices s3) s3;
                s5 = riscv_ipi_enable s4
            in s5\<lparr>riscv_ipi_for_rfence := use_for_rfence\<rparr>))"

subsection \<open>Stopping the other CPUs\<close>

text \<open>
  Modelled from the spec: \<open>USEC_PER_SEC\<close> is declared outside the given sources
  (\<open>vdso/time64.h\<close>). The spec has the wait last "on the order of one second, in
  one-microsecond steps": a million steps.
\<close>

definition USEC_PER_SEC :: nat where "USEC_PER_SEC = 1000000"

text \<open>
  The other CPUs run while this one sits in \<open>udelay(1)\<close>. What they do there is a
  parameter: the CPUs that mark themselves offline, and the number of decrements of
  \<open>waiting_for_crash_ipi\<close>, during the microsecond that starts at a given time.
\<close>

record others =
  goes_offline :: "nat \<Rightarrow> nat set"
  crash_acks :: "nat \<Rightarrow> nat"

definition udelay1 :: "others \<Rightarrow> smp \<Rightarrow> smp" where
  "udelay1 env s =
     s\<lparr>cpu_online_mask := cpu_online_mask s - goes_offline env (elapsed_us s),
       waiting_for_crash_ipi := waiting_for_crash_ipi s - of_nat (crash_acks env (elapsed_us s)),
       elapsed_us := Suc (elapsed_us s)\<rparr>"

definition num_online_cpus :: "smp \<Rightarrow> nat" where
  "num_online_cpus s = card (cpu_online_mask s)"

text \<open>
  \<open>while (num_online_cpus() > 1 && timeout--) udelay(1);\<close> with \<open>timeout\<close> left. At
  \<open>timeout = 0\<close> the test \<open>timeout--\<close> fails and the loop ends.
\<close>

fun stop_wait :: "others \<Rightarrow> nat \<Rightarrow> smp \<Rightarrow> smp" where
  "stop_wait env 0 s = s"
| "stop_wait env (Suc timeout) s =
     (if 1 < num_online_cpus s then stop_wait env timeout (udelay1 env s) else s)"

text \<open>
  \<open>smp_send_stop\<close>: the block under \<open>if (num_online_cpus() > 1)\<close>, then the wait loop and
  the final test. \<open>system_running\<close> stands for \<open>system_state <= SYSTEM_RUNNING\<close>.
\<close>

definition smp_send_stop_broadcast :: "kconfig \<Rightarrow> nat \<Rightarrow> bool \<Rightarrow> smp \<Rightarrow> smp" where
  "smp_send_stop_broadcast cfg this_cpu system_running s =
     (if 1 < num_online_cpus s
      then (let cpus = cpu_online_mask s - {this_cpu};
                s' = (if system_running then log Pr_crit_stopping_secondary_CPUs s else s)
            in send_ipi_mask cfg cpus IPI_CPU_STOP s')
      else s)"

definition smp_send_stop :: "kconfig \<Rightarrow> nat \<Rightarrow> bool \<Rightarrow> others \<Rightarrow> smp \<Rightarrow> smp" where
  "smp_send_stop cfg this_cpu system_running env s =
     (let s1 = smp_send_stop_broadcast cfg this_cpu system_running s;
          s2 = stop_wait env USEC_PER_SEC s1
      in if 1 < num_online_cpus s2
         then log (Pr_warn_failed_to_stop (cpu_online_mask s2)) s2 else s2)"






section \<open>Virtual interrupt flag\<close>

definition RISCV_STATUS_SIE_BIT :: nat where "RISCV_STATUS_SIE_BIT = 1"
definition RISCV_STATIS_SS_BIT :: nat where "RISCV_STATIS_SS_BIT = 31"
definition RISCV_STATUS_MIE_BIT :: nat where "RISCV_STATUS_MIE_BIT = 3"

definition RISCV_STATUS_IE_BIT :: "kconfig \<Rightarrow> nat" where
  "RISCV_STATUS_IE_BIT cfg =
     (if riscv_m_mode cfg then RISCV_STATUS_MIE_BIT else RISCV_STATUS_SIE_BIT)"

text \<open>The C operator \<open>!\<close> on an \<open>int\<close>.\<close>

definition lnot :: "cint \<Rightarrow> cint" where
  "lnot x = (if x = 0 then 1 else 0)"

text \<open>
  \<open>(!stalled) << RISCV_STATUS_IE_BIT\<close> is computed on \<open>int\<close> and converted to
  \<open>unsigned long\<close> on return.
\<close>

definition arch_irqs_virtual_to_native_flags :: "kconfig \<Rightarrow> cint \<Rightarrow> ulong" where
  "arch_irqs_virtual_to_native_flags cfg stalled =
     scast (push_bit (RISCV_STATUS_IE_BIT cfg) (lnot stalled))"

text \<open>
  Modelled from the spec: \<open>native_irqs_disabled_flags\<close> and \<open>SR_IE\<close> are outside the
  given sources. The spec derives the hardware-disabled status "from the real hardware
  enable bit": the flags are disabled when the bit \<open>RISCV_STATUS_IE_BIT\<close> is clear.
\<close>

definition SR_IE :: "kconfig \<Rightarrow> ulong" where
  "SR_IE cfg = push_bit (RISCV_STATUS_IE_BIT cfg) 1"

definition native_irqs_disabled_flags :: "kconfig \<Rightarrow> ulong \<Rightarrow> cint" where
  "native_irqs_disabled_flags cfg flags = (if flags AND SR_IE cfg = 0 then 1 else 0)"

definition arch_irqs_disabled_flags :: "kconfig \<Rightarrow> ulong \<Rightarrow> cint" where
  "arch_irqs_disabled_flags cfg flags = native_irqs_disabled_flags cfg flags"

text \<open>
  Modelled from the spec: the in-band stall primitives \<open>inband_irq_save\<close>,
  \<open>inband_irq_enable\<close>, \<open>inband_irq_disable\<close>, \<open>inband_irqs_disabled\<close> and
  \<open>inband_irq_restore\<close> are outside the given sources. The spec keeps one boolean per
  CPU: "save() returns the current virtual flag state and leaves it unchanged; disable()
  sets the virtual flag to stalled; enable() clears it; restore(state) sets the flag to
  exactly state".
\<close>

record vcpu =
  inband_stalled :: bool

definition inband_irq_save :: "vcpu \<Rightarrow> cint \<times> vcpu" where
  "inband_irq_save v = (if inband_stalled v then 1 else 0, v)"

definition inband_irqs_disabled :: "vcpu \<Rightarrow> cint" where
  "inband_irqs_disabled v = (if inband_stalled v then 1 else 0)"

definition inband_irq_enable :: "vcpu \<Rightarrow> vcpu" where
  "inband_irq_enable v = v\<lparr>inband_stalled := False\<rparr>"

definition inband_irq_disable :: "vcpu \<Rightarrow> vcpu" where
  "inband_irq_disable v = v\<lparr>inband_stalled := True\<rparr>"

definition inband_irq_restore :: "cint \<Rightarrow> vcpu \<Rightarrow> vcpu" where
  "inband_irq_restore x v = v\<lparr>inband_stalled := (x \<noteq> 0)\<rparr>"

text \<open>The pipelined \<open>arch_local_irq_*\<close> of \<open>asm/irq_pipeline.h\<close>; \<open>barrier()\<close> has no effect on the state.\<close>

definition arch_local_irq_save :: "kconfig \<Rightarrow> vcpu \<Rightarrow> ulong \<times> vcpu" where
  "arch_local_irq_save cfg v =
     (case inband_irq_save v of
        (stalled, v') \<Rightarrow> (arch_irqs_virtual_to_native_flags cfg stalled, v'))"

definition arch_local_irq_enable :: "vcpu \<Rightarrow> vcpu" where
  "arch_local_irq_enable v = inband_irq_enable v"

definition arch_local_irq_disable :: "vcpu \<Rightarrow> vcpu" where
  "arch_local_irq_disable v = inband_irq_disable v"

definition arch_local_save_flags :: "kconfig \<Rightarrow> vcpu \<Rightarrow> ulong" where
  "arch_local_save_flags cfg v = arch_irqs_virtual_to_native_flags cfg (inband_irqs_disabled v)"

definition arch_local_irq_restore :: "kconfig \<Rightarrow> ulong \<Rightarrow> vcpu \<Rightarrow> vcpu" where
  "arch_local_irq_restore cfg flags v = inband_irq_restore (arch_irqs_disabled_flags cfg flags) v"

definition arch_irqs_disabled :: "kconfig \<Rightarrow> vcpu \<Rightarrow> cint" where
  "arch_irqs_disabled cfg v = arch_irqs_disabled_flags cfg (arch_local_save_flags cfg v)"

text \<open>
  The calls a critical section may make between a save and its restore: enable, disable,
  and a nested critical section (save, its own calls, restore of what it saved).
\<close>

datatype irq_op = Irq_enable | Irq_disable | Irq_section "irq_op list"

fun run_irq_op :: "kconfig \<Rightarrow> irq_op \<Rightarrow> vcpu \<Rightarrow> vcpu" where
  "run_irq_op cfg Irq_enable v = arch_local_irq_enable v"
| "run_irq_op cfg Irq_disable v = arch_local_irq_disable v"
| "run_irq_op cfg (Irq_section body) v =
     (case arch_local_irq_save cfg v of
        (flags, v') \<Rightarrow> arch_local_irq_restore cfg flags (fold (run_irq_op cfg) body v'))"

section \<open>Stage entry dispatcher\<close>














section \<open>Concrete configurations and states\<close>

text \<open>
  The variables of \<open>smp.c\<close> as their initialisers leave them (\<open>nr_ipi = IPI_MAX\<close>,
  everything else zero), with the boot CPU online; the pipelined build without and with
  \<open>CONFIG_DEBUG_IRQ_PIPELINE\<close>; and a state in which the range of lines starting at 16 is
  registered, the descriptor of line \<open>16 + i\<close> being at address \<open>1000 + i\<close>.
\<close>

definition smp_boot :: smp where
  "smp_boot = \<lparr>ipi_virq_base = 0, nr_ipi = of_nat IPI_MAX, ipi_desc = (\<lambda>i. 0),
     ipi_messages = (\<lambda>cpu. 0), ipi_counts = (\<lambda>cpu i. 0), riscv_ipi_for_rfence = False,
     cpus_stopped = False, waiting_for_crash_ipi = 0, cpu_online_mask = {0}, elapsed_us = 0,
     events = []\<rparr>"

definition production :: kconfig where
  "production = \<lparr>irqs_pipelined = True, irq_pipeline_debug = False,
     generic_clockevents_broadcast = False, kexec_core = True, hotplug_cpu = False,
     tiny_rcu = False, riscv_m_mode = True\<rparr>"

definition debug_build :: kconfig where
  "debug_build = production\<lparr>irq_pipeline_debug := True\<rparr>"

definition smp_registered :: smp where
  "smp_registered = smp_boot\<lparr>ipi_virq_base := 16, ipi_desc := (\<lambda>i. 1000 + i)\<rparr>"

text \<open>
  Two CPUs online; the other CPUs either never react, or CPU 1 goes offline and
  acknowledges the crash stop during the third microsecond of waiting.
\<close>

definition smp_two_cpus :: smp where
  "smp_two_cpus = smp_registered\<lparr>cpu_online_mask := {0, 1}\<rparr>"

definition unresponsive :: others where
  "unresponsive = \<lparr>goes_offline = (\<lambda>t. {}), crash_acks = (\<lambda>t. 0)\<rparr>"

definition responsive :: others where
  "responsive = \<lparr>goes_offline = (\<lambda>t. if t = 2 then {1} else {}),
     crash_acks = (\<lambda>t. if t = 2 then 1 else 0)\<rparr>"

text \<open>
  Two senders ask CPU 0 to reschedule, one after the other, before CPU 0 has run its
  handler.
\<close>

definition resched_twice :: smp where
  "resched_twice = send_ipi_single production 0 IPI_RESCHEDULE
     (send_ipi_single production 0 IPI_RESCHEDULE smp_registered)"

section \<open>Theorems\<close>

subsection \<open>Timer register snapshot\<close>

lemma copy_same: "arch_save_timer_regs a a h = h"
  by (simp add: arch_save_timer_regs_def copy_field_def)

lemma copy_diff: "dst \<noteq> src \<Longrightarrow> arch_save_timer_regs dst src h = h(dst := (h src)\<lparr>t6 := t6 (h dst)\<rparr>)"
  by (cases "h dst"; cases "h src") (simp add: arch_save_timer_regs_def copy_field_def)

lemma arch_save_timer_regs_eq:
  "arch_save_timer_regs dst src h = h(dst := (h src)\<lparr>t6 := t6 (h dst)\<rparr>)"
  by (cases "dst = src") (simp_all add: copy_same copy_diff)

text \<open>
  Claim C10. \<open>arch_save_timer_regs(dst, src)\<close> copies \<open>epc\<close>, \<open>ra\<close>, \<open>sp\<close>, \<open>gp\<close>, \<open>tp\<close>,
  \<open>t0\<close> to \<open>t5\<close>, \<open>s0\<close> to \<open>s11\<close>, \<open>a0\<close> to \<open>a7\<close>, \<open>status\<close>, \<open>badaddr\<close>, \<open>cause\<close> and
  \<open>orig_a0\<close> from the source frame into the destination frame, leaves the source frame as
  it was, and does not copy \<open>t6\<close>: the destination keeps the \<open>t6\<close> it had. So the
  destination ends as the source frame with the destination's old \<open>t6\<close>, and no other
  frame of the store changes. This holds also when both pointers name the same frame.
\<close>

theorem arch_save_timer_regs_frame:
  "arch_save_timer_regs dst src h = h(dst := (h src)\<lparr>t6 := t6 (h dst)\<rparr>)
   \<and> arch_save_timer_regs dst src h src = h src
   \<and> t6 (arch_save_timer_regs dst src h dst) = t6 (h dst)
   \<and> (let d = arch_save_timer_regs dst src h dst; s = h src in
        epc d = epc s \<and> ra d = ra s \<and> sp d = sp s \<and> gp d = gp s \<and> tp d = tp s
        \<and> t0 d = t0 s \<and> t1 d = t1 s \<and> t2 d = t2 s \<and> t3 d = t3 s \<and> t4 d = t4 s \<and> t5 d = t5 s
        \<and> s0 d = s0 s \<and> s1 d = s1 s \<and> s2 d = s2 s \<and> s3 d = s3 s \<and> s4 d = s4 s \<and> s5 d = s5 s
        \<and> s6 d = s6 s \<and> s7 d = s7 s \<and> s8 d = s8 s \<and> s9 d = s9 s \<and> s10 d = s10 s
        \<and> s11 d = s11 s
        \<and> a0 d = a0 s \<and> a1 d = a1 s \<and> a2 d = a2 s \<and> a3 d = a3 s \<and> a4 d = a4 s \<and> a5 d = a5 s
        \<and> a6 d = a6 s \<and> a7 d = a7 s
        \<and> status d = status s \<and> badaddr d = badaddr s \<and> cause d = cause s
        \<and> orig_a0 d = orig_a0 s)"
  by (simp add: arch_save_timer_regs_eq)

subsection \<open>Hart identifier lookup\<close>

lemma hartid_scan_miss:
  "\<forall>j. i \<le> j \<and> j < length m \<longrightarrow> m ! j \<noteq> h \<Longrightarrow> hartid_scan m h i = - ENOENT"
proof (induction m h i rule: hartid_scan.induct)
  case (1 m hartid i)
  show ?case
  proof (cases "i < length m")
    case True
    with "1.prems" have ne: "m ! i \<noteq> hartid" by auto
    have "hartid_scan m hartid (Suc i) = - ENOENT"
      using "1.IH" [OF True ne] "1.prems" by auto
    with True ne show ?thesis by simp
  next
    case False
    then show ?thesis by simp
  qed
qed

lemma hartid_scan_hit:
  "i \<le> k \<Longrightarrow> k < length m \<Longrightarrow> m ! k = h \<Longrightarrow> \<forall>j. i \<le> j \<and> j < k \<longrightarrow> m ! j \<noteq> h
   \<Longrightarrow> hartid_scan m h i = int k"
proof (induction m h i rule: hartid_scan.induct)
  case (1 m hartid i)
  from "1.prems" have lt: "i < length m" by simp
  show ?case
  proof (cases "m ! i = hartid")
    case True
    with "1.prems" have "i = k" by (metis le_neq_implies_less le_refl)
    with True lt show ?thesis by simp
  next
    case False
    with "1.prems" have "Suc i \<le> k" by (metis Suc_leI le_neq_implies_less)
    then have "hartid_scan m hartid (Suc i) = int k"
      using "1.IH" [OF lt False] "1.prems" by auto
    with False lt show ?thesis by simp
  qed
qed

text \<open>
  Claim C9. For every hart identifier, \<open>riscv_hartid_to_cpuid\<close> returns the smallest
  logical CPU index below \<open>NR_CPUS\<close> whose map entry equals it, and \<open>-ENOENT\<close> when no
  entry equals it; every entry of the map as initialised is \<open>INVALID_HARTID\<close>, so on that
  map every other identifier is not found. A found index is not negative and \<open>-ENOENT\<close> is:
  the two results cannot be confused.
\<close>

theorem riscv_hartid_to_cpuid_lookup:
  "(h \<in> set m \<longrightarrow>
      (\<exists>i. riscv_hartid_to_cpuid m h = int i \<and> i < length m \<and> m ! i = h \<and> (\<forall>j<i. m ! j \<noteq> h)))
   \<and> (h \<notin> set m \<longrightarrow> riscv_hartid_to_cpuid m h = - ENOENT)
   \<and> (h \<noteq> INVALID_HARTID \<longrightarrow>
        riscv_hartid_to_cpuid (cpuid_to_hartid_map_init NR_CPUS INVALID_HARTID) h = - ENOENT)"
proof (intro conjI impI)
  assume "h \<in> set m"
  then have ex: "\<exists>i. i < length m \<and> m ! i = h" by (auto simp: in_set_conv_nth)
  define k where "k = (LEAST i. i < length m \<and> m ! i = h)"
  from ex have k: "k < length m" "m ! k = h"
    unfolding k_def by (metis (mono_tags, lifting) LeastI)+
  have least: "\<forall>j<k. m ! j \<noteq> h"
  proof (intro allI impI)
    fix j assume "j < k"
    with k(1) have "j < length m" by simp
    from \<open>j < k\<close> have "\<not> (j < length m \<and> m ! j = h)"
      unfolding k_def by (rule not_less_Least)
    with \<open>j < length m\<close> show "m ! j \<noteq> h" by simp
  qed
  have "hartid_scan m h 0 = int k"
    by (rule hartid_scan_hit) (use k least in auto)
  with k least show "\<exists>i. riscv_hartid_to_cpuid m h = int i \<and> i < length m \<and> m ! i = h
      \<and> (\<forall>j<i. m ! j \<noteq> h)"
    unfolding riscv_hartid_to_cpuid_def by blast
next
  assume "h \<notin> set m"
  then have "\<forall>j. 0 \<le> j \<and> j < length m \<longrightarrow> m ! j \<noteq> h" by auto
  then show "riscv_hartid_to_cpuid m h = - ENOENT"
    unfolding riscv_hartid_to_cpuid_def by (rule hartid_scan_miss)
next
  assume "h \<noteq> INVALID_HARTID"
  then have "\<forall>j. 0 \<le> j \<and> j < length (cpuid_to_hartid_map_init NR_CPUS INVALID_HARTID)
      \<longrightarrow> cpuid_to_hartid_map_init NR_CPUS INVALID_HARTID ! j \<noteq> h"
    by (auto simp: cpuid_to_hartid_map_init_def)
  then show "riscv_hartid_to_cpuid (cpuid_to_hartid_map_init NR_CPUS INVALID_HARTID) h = - ENOENT"
    unfolding riscv_hartid_to_cpuid_def by (rule hartid_scan_miss)
qed

theorem riscv_hartid_to_cpuid_lookup_witness:
  "7 \<in> set [5, 7, - 1, 7 :: ulong]
   \<and> riscv_hartid_to_cpuid [5, 7, - 1, 7] 7 = 1
   \<and> 9 \<notin> set [5, 7, - 1, 7 :: ulong]
   \<and> riscv_hartid_to_cpuid [5, 7, - 1, 7] 9 = - 2
   \<and> (9 :: ulong) \<noteq> - 1
   \<and> riscv_hartid_to_cpuid (cpuid_to_hartid_map_init 4 (- 1)) 9 = - 2"
proof -
  let ?m = "[5, 7, - 1, 7 :: ulong]"
  have a: "7 \<in> set ?m" by simp
  have b: "9 \<notin> set ?m" by simp
  have c: "(9 :: ulong) \<noteq> - 1" by simp
  from riscv_hartid_to_cpuid_lookup [of 7 ?m] a
  obtain i where i: "riscv_hartid_to_cpuid ?m 7 = int i" "i < length ?m" "?m ! i = 7"
      "\<forall>j<i. ?m ! j \<noteq> 7"
    by blast
  from i(2) have "i = 0 \<or> i = 1 \<or> i = 2 \<or> i = 3" by auto
  then have "i = 1"
  proof (elim disjE)
    assume "i = 0" with i(3) show ?thesis by simp
  next
    assume "i = 1" then show ?thesis .
  next
    assume "i = 2" with i(3) show ?thesis by simp
  next
    assume "i = 3"
    with i(4) have "(1::nat) < 3 \<longrightarrow> ?m ! 1 \<noteq> 7" by blast
    then show ?thesis by simp
  qed
  with i(1) have r1: "riscv_hartid_to_cpuid ?m 7 = 1" by simp
  from riscv_hartid_to_cpuid_lookup [of 9 ?m "- 1" 4] b c
  have r2: "riscv_hartid_to_cpuid ?m 9 = - 2"
    and r3: "riscv_hartid_to_cpuid (cpuid_to_hartid_map_init 4 (- 1)) 9 = - 2"
    by (simp_all add: ENOENT_def)
  from a b c r1 r2 r3 show ?thesis by simp
qed

subsection \<open>Virtual interrupt flag\<close>

lemma flags_round_trip_0:
  "arch_irqs_disabled_flags cfg (arch_irqs_virtual_to_native_flags cfg 0) = 0"
  by (simp add: arch_irqs_disabled_flags_def native_irqs_disabled_flags_def
      arch_irqs_virtual_to_native_flags_def SR_IE_def RISCV_STATUS_IE_BIT_def lnot_def
      RISCV_STATUS_MIE_BIT_def RISCV_STATUS_SIE_BIT_def)

lemma flags_round_trip_1:
  "arch_irqs_disabled_flags cfg (arch_irqs_virtual_to_native_flags cfg 1) = 1"
  by (simp add: arch_irqs_disabled_flags_def native_irqs_disabled_flags_def
      arch_irqs_virtual_to_native_flags_def SR_IE_def RISCV_STATUS_IE_BIT_def lnot_def
      RISCV_STATUS_MIE_BIT_def RISCV_STATUS_SIE_BIT_def)

lemma restore_of_save:
  "arch_local_irq_restore cfg (fst (arch_local_irq_save cfg v)) w
     = w\<lparr>inband_stalled := inband_stalled v\<rparr>"
  by (simp add: arch_local_irq_restore_def arch_local_irq_save_def inband_irq_save_def
      inband_irq_restore_def flags_round_trip_0 flags_round_trip_1)

text \<open>
  Claim C5. On one CPU, whatever state \<open>arch_local_irq_save\<close> captured and whatever
  sequence of enable and disable calls (and nested save/restore sections) follows,
  \<open>arch_local_irq_restore\<close> of the captured flags sets the virtual stall flag to the value
  it had at the capture, and it does so from any state \<open>w\<close> the CPU may be in by then; a
  whole save/.../restore section leaves the flag as it found it;
  and the encoding round-trips: \<open>arch_irqs_disabled_flags\<close> of
  \<open>arch_irqs_virtual_to_native_flags stalled\<close> is \<open>stalled\<close>, for \<open>stalled\<close> 0 and 1, in
  the M-mode and the S-mode build.
\<close>

theorem arch_local_irq_restore_nests:
  "inband_stalled
     (arch_local_irq_restore cfg (fst (arch_local_irq_save cfg v))
        (fold (run_irq_op cfg) ops (snd (arch_local_irq_save cfg v))))
     = inband_stalled v
   \<and> inband_stalled (arch_local_irq_restore cfg (fst (arch_local_irq_save cfg v)) w)
     = inband_stalled v
   \<and> inband_stalled (run_irq_op cfg (Irq_section ops) v) = inband_stalled v
   \<and> arch_irqs_disabled_flags cfg (arch_irqs_virtual_to_native_flags cfg 0) = 0
   \<and> arch_irqs_disabled_flags cfg (arch_irqs_virtual_to_native_flags cfg 1) = 1"
proof -
  have "inband_stalled (run_irq_op cfg (Irq_section ops) v) = inband_stalled v"
    using restore_of_save [of cfg v "fold (run_irq_op cfg) ops (snd (arch_local_irq_save cfg v))"]
    by (simp add: case_prod_beta)
  then show ?thesis
    by (simp add: restore_of_save flags_round_trip_0 flags_round_trip_1)
qed

subsection \<open>Stage entry dispatcher\<close>




subsection \<open>Out-of-band send\<close>

lemma oob_window_index:
  "\<not> ((op :: uint) < of_nat OOB_IPI_OFFSET \<or> of_nat (OOB_IPI_OFFSET + OOB_NR_IPI) \<le> op)
   \<Longrightarrow> unat op < IPI_MAX"
  by (simp add: OOB_IPI_OFFSET_def OOB_NR_IPI_def IPI_MAX_def word_less_nat_alt word_le_nat_alt)

text \<open>
  Claim C2, as amended. With \<open>irq_pipeline_debug()\<close> on, a call of \<open>irq_send_oob_ipi\<close>
  whose \<open>irq - ipi_virq_base\<close> lies outside the window from \<open>OOB_IPI_OFFSET\<close> up to, not
  including, \<open>OOB_IPI_OFFSET + OOB_NR_IPI\<close> emits a warning and attempts no delivery. With it
  off no check is made: no warning is emitted and the line \<open>ipi_desc[op]\<close> is raised for
  the target mask whenever \<open>op\<close> is below \<open>IPI_MAX\<close>, and the read of \<open>ipi_desc\<close> is out of
  bounds otherwise. For an \<open>irq\<close> inside the window the corresponding line is raised for
  the target mask in both builds, and logging an event never touches the pending masks.
\<close>

theorem irq_send_oob_ipi_checked:
  "(irq_pipeline_debug cfg \<and>
      (irq - ipi_virq_base s < of_nat OOB_IPI_OFFSET
       \<or> of_nat (OOB_IPI_OFFSET + OOB_NR_IPI) \<le> irq - ipi_virq_base s)
    \<longrightarrow> irq_send_oob_ipi cfg irq cpumask s = Returned (log (WARN_ON Oob_ipi_out_of_range) s))
   \<and> (\<not> (irq - ipi_virq_base s < of_nat OOB_IPI_OFFSET
          \<or> of_nat (OOB_IPI_OFFSET + OOB_NR_IPI) \<le> irq - ipi_virq_base s)
    \<longrightarrow> irq_send_oob_ipi cfg irq cpumask s
          = Returned (log (Ipi_send_mask (ipi_desc s (unat (irq - ipi_virq_base s))) cpumask) s))
   \<and> (\<not> irq_pipeline_debug cfg \<and> unat (irq - ipi_virq_base s) < IPI_MAX
    \<longrightarrow> irq_send_oob_ipi cfg irq cpumask s
          = Returned (log (Ipi_send_mask (ipi_desc s (unat (irq - ipi_virq_base s))) cpumask) s))
   \<and> (\<not> irq_pipeline_debug cfg \<and> IPI_MAX \<le> unat (irq - ipi_virq_base s)
    \<longrightarrow> irq_send_oob_ipi cfg irq cpumask s = Fault)
   \<and> ipi_messages (log e s) = ipi_messages s"
  using oob_window_index [of "irq - ipi_virq_base s"]
  by (auto simp: irq_send_oob_ipi_def raw_send_ipi_mask_def Let_def log_def)


theorem irq_send_oob_ipi_checked_witness:
  "(irq_pipeline_debug debug_build \<and> 16 - ipi_virq_base smp_registered < of_nat OOB_IPI_OFFSET
      \<and> irq_send_oob_ipi debug_build 16 {1} smp_registered
          = Returned (log (WARN_ON Oob_ipi_out_of_range) smp_registered))
   \<and> (\<not> (18 - ipi_virq_base smp_registered < of_nat OOB_IPI_OFFSET
           \<or> of_nat (OOB_IPI_OFFSET + OOB_NR_IPI) \<le> 18 - ipi_virq_base smp_registered)
      \<and> irq_send_oob_ipi debug_build 18 {1} smp_registered
          = Returned (log (Ipi_send_mask 1002 {1}) smp_registered))
   \<and> (\<not> irq_pipeline_debug production \<and> unat (20 - ipi_virq_base smp_registered) < IPI_MAX
      \<and> irq_send_oob_ipi production 20 {1} smp_registered
          = Returned (log (Ipi_send_mask 1004 {1}) smp_registered))
   \<and> (\<not> irq_pipeline_debug production \<and> IPI_MAX \<le> unat (15 - ipi_virq_base smp_registered)
      \<and> irq_send_oob_ipi production 15 {1} smp_registered = Fault)"
proof -
  have base: "ipi_virq_base smp_registered = 16"
    and desc: "ipi_desc smp_registered = (\<lambda>i. 1000 + i)"
    by (simp_all add: smp_registered_def smp_boot_def)
  have dbg: "irq_pipeline_debug debug_build" "\<not> irq_pipeline_debug production"
    by (simp_all add: debug_build_def production_def)
  have a: "(16 :: uint) - ipi_virq_base smp_registered < of_nat OOB_IPI_OFFSET"
    by (simp add: base OOB_IPI_OFFSET_def)
  have b: "\<not> ((18 :: uint) - ipi_virq_base smp_registered < of_nat OOB_IPI_OFFSET
           \<or> of_nat (OOB_IPI_OFFSET + OOB_NR_IPI) \<le> (18 :: uint) - ipi_virq_base smp_registered)"
    by (simp add: base OOB_IPI_OFFSET_def OOB_NR_IPI_def)
  have c: "unat ((20 :: uint) - ipi_virq_base smp_registered) < IPI_MAX"
    by (simp add: base IPI_MAX_def)
  have d: "IPI_MAX \<le> unat ((15 :: uint) - ipi_virq_base smp_registered)"
    by (simp add: base IPI_MAX_def unsigned_minus_1_eq_mask mask_eq_exp_minus_1)
  from irq_send_oob_ipi_checked [of debug_build 16 smp_registered "{1}"] dbg a
  have r1: "irq_send_oob_ipi debug_build 16 {1} smp_registered
      = Returned (log (WARN_ON Oob_ipi_out_of_range) smp_registered)"
    by blast
  from irq_send_oob_ipi_checked [of debug_build 18 smp_registered "{1}"] b
  have r2: "irq_send_oob_ipi debug_build 18 {1} smp_registered
      = Returned (log (Ipi_send_mask 1002 {1}) smp_registered)"
    by (simp add: base desc)
  from irq_send_oob_ipi_checked [of production 20 smp_registered "{1}"] dbg c
  have r3: "irq_send_oob_ipi production 20 {1} smp_registered
      = Returned (log (Ipi_send_mask 1004 {1}) smp_registered)"
    by (simp add: base desc)
  from irq_send_oob_ipi_checked [of production 15 smp_registered "{1}"] dbg d
  have r4: "irq_send_oob_ipi production 15 {1} smp_registered = Fault"
    by blast
  from dbg a b c d r1 r2 r3 r4 show ?thesis by blast
qed

text \<open>
  Claim C2 as stated has the production build warn and drop the send. In the production
  build the request for line 16, whose \<open>op\<close> is 0 and so outside the window, raises the
  line \<open>ipi_desc[0]\<close> for the target mask, and no warning is logged.
\<close>

theorem irq_send_oob_ipi_counterexample:
  "\<not> irq_pipeline_debug production
   \<and> 16 - ipi_virq_base smp_registered < of_nat OOB_IPI_OFFSET
   \<and> irq_send_oob_ipi production 16 {1} smp_registered
       = Returned (smp_registered\<lparr>events := [Ipi_send_mask 1000 {1}]\<rparr>)
   \<and> irq_send_oob_ipi production 16 {1} smp_registered
       \<noteq> Returned (log (WARN_ON Oob_ipi_out_of_range) smp_registered)"
  by (simp add: irq_send_oob_ipi_def raw_send_ipi_mask_def log_def Let_def production_def
      smp_registered_def smp_boot_def OOB_IPI_OFFSET_def OOB_NR_IPI_def IPI_MAX_def)

subsection \<open>Registration of the interrupt range\<close>

lemma request_ipi_fields:
  "ipi_virq_base (request_ipi d rq n i s) = ipi_virq_base s"
  "nr_ipi (request_ipi d rq n i s) = nr_ipi s"
  "riscv_ipi_for_rfence (request_ipi d rq n i s) = riscv_ipi_for_rfence s"
  "ipi_desc (request_ipi d rq n i s) = (ipi_desc s)(i := d (ipi_virq_base s + of_nat i))"
  "events (request_ipi d rq n i s) = events s @
     (if of_nat i <s n
      then Request_percpu_irq (ipi_virq_base s + of_nat i) #
           (if rq (ipi_virq_base s + of_nat i) \<noteq> 0 then [WARN_ON Request_percpu_irq_failed] else [])
      else []) @ [Irq_set_status_flags_HIDDEN (ipi_virq_base s + of_nat i)]"
  by (simp_all add: request_ipi_def Let_def log_def)

lemma fold_request_ipi_fields:
  "ipi_virq_base (fold (request_ipi d rq n) is s) = ipi_virq_base s"
  "nr_ipi (fold (request_ipi d rq n) is s) = nr_ipi s"
  by (induction "is" arbitrary: s) (simp_all add: request_ipi_fields)



lemma fold_log_fields:
  "ipi_virq_base (fold (\<lambda>i. log (f i)) is s) = ipi_virq_base s"
  "nr_ipi (fold (\<lambda>i. log (f i)) is s) = nr_ipi s"
  "ipi_desc (fold (\<lambda>i. log (f i)) is s) = ipi_desc s"
  "events (fold (\<lambda>i. log (f i)) is s) = events s @ map f is"
  by (induction "is" arbitrary: s) (simp_all add: log_def)

lemma riscv_ipi_enable_fields:
  "ipi_virq_base (riscv_ipi_enable s) = ipi_virq_base s"
  "nr_ipi (riscv_ipi_enable s) = nr_ipi s"
  "ipi_desc (riscv_ipi_enable s) = ipi_desc s"
  "events (riscv_ipi_enable s) = events s @
     (if ipi_virq_base s = 0 then [WARN_ON_ONCE No_virq_base]
      else map (\<lambda>i. Enable_percpu_irq (ipi_virq_base s + of_nat i)) (ipi_indices s))"
  by (simp_all add: riscv_ipi_enable_def fold_log_fields) (simp_all add: log_def)

lemma set_virq_range_fresh:
  assumes "ipi_virq_base s = 0"
  shows "ipi_virq_base (riscv_ipi_set_virq_range cfg d rq virq nr rf s) = virq"
    and "nr_ipi (riscv_ipi_set_virq_range cfg d rq virq nr rf s)
          = (if nr <s of_nat IPI_MAX then nr else of_nat IPI_MAX)"
    and "riscv_ipi_for_rfence (riscv_ipi_set_virq_range cfg d rq virq nr rf s) = rf"
  using assms
  by (simp_all add: riscv_ipi_set_virq_range_def Let_def riscv_ipi_enable_fields
      fold_request_ipi_fields)

lemma set_virq_range_again:
  "ipi_virq_base s \<noteq> 0 \<Longrightarrow>
     riscv_ipi_set_virq_range cfg d rq virq nr rf s = log (WARN_ON Virq_base_already_set) s"
  by (simp add: riscv_ipi_set_virq_range_def)

text \<open>
  Claim C4. After a first call of \<open>riscv_ipi_set_virq_range\<close> that registered a range (it
  found \<open>ipi_virq_base\<close> zero and was given a nonzero \<open>virq\<close>), every second call, whatever
  its arguments, logs a warning and does nothing else: \<open>ipi_virq_base\<close>, \<open>nr_ipi\<close>, the
  table \<open>ipi_desc\<close> and the rfence key are what the first call left, and no line is
  requested or enabled again.
\<close>

theorem riscv_ipi_set_virq_range_one_shot:
  "ipi_virq_base s = 0 \<and> virq \<noteq> 0 \<longrightarrow>
     (let s1 = riscv_ipi_set_virq_range cfg d rq virq nr rf s;
          s2 = riscv_ipi_set_virq_range cfg' d' rq' virq' nr' rf' s1
      in s2 = s1\<lparr>events := events s1 @ [WARN_ON Virq_base_already_set]\<rparr>
         \<and> ipi_virq_base s2 = virq
         \<and> ipi_virq_base s2 = ipi_virq_base s1
         \<and> nr_ipi s2 = nr_ipi s1
         \<and> ipi_desc s2 = ipi_desc s1
         \<and> riscv_ipi_for_rfence s2 = riscv_ipi_for_rfence s1)"
proof (intro impI, elim conjE)
  assume fresh: "ipi_virq_base s = 0" and virq: "virq \<noteq> 0"
  let ?s1 = "riscv_ipi_set_virq_range cfg d rq virq nr rf s"
  from fresh have base: "ipi_virq_base ?s1 = virq" by (rule set_virq_range_fresh)
  with virq have "ipi_virq_base ?s1 \<noteq> 0" by simp
  then have "riscv_ipi_set_virq_range cfg' d' rq' virq' nr' rf' ?s1
      = log (WARN_ON Virq_base_already_set) ?s1"
    by (rule set_virq_range_again)
  with base show "let s1 = ?s1; s2 = riscv_ipi_set_virq_range cfg' d' rq' virq' nr' rf' s1
      in s2 = s1\<lparr>events := events s1 @ [WARN_ON Virq_base_already_set]\<rparr>
         \<and> ipi_virq_base s2 = virq
         \<and> ipi_virq_base s2 = ipi_virq_base s1
         \<and> nr_ipi s2 = nr_ipi s1
         \<and> ipi_desc s2 = ipi_desc s1
         \<and> riscv_ipi_for_rfence s2 = riscv_ipi_for_rfence s1"
    by (simp add: Let_def log_def)
qed



theorem riscv_ipi_set_virq_range_one_shot_witness:
  "ipi_virq_base smp_boot = 0 \<and> (16 :: cint) \<noteq> 0
   \<and> (let s1 = riscv_ipi_set_virq_range production unat (\<lambda>irq. 0) 16 6 True smp_boot;
           s2 = riscv_ipi_set_virq_range debug_build (\<lambda>irq. 0) (\<lambda>irq. 1) 32 3 False s1
       in s2 = s1\<lparr>events := events s1 @ [WARN_ON Virq_base_already_set]\<rparr>
          \<and> ipi_virq_base s2 = 16
          \<and> ipi_virq_base s2 = ipi_virq_base s1
          \<and> nr_ipi s2 = nr_ipi s1
          \<and> ipi_desc s2 = ipi_desc s1
          \<and> riscv_ipi_for_rfence s2 = riscv_ipi_for_rfence s1)"
proof -
  have h: "ipi_virq_base smp_boot = 0 \<and> (16 :: cint) \<noteq> 0"
    by (simp add: smp_boot_def)
  with riscv_ipi_set_virq_range_one_shot [of smp_boot 16 production unat "\<lambda>irq. 0" 6 True
      debug_build "\<lambda>irq. 0" "\<lambda>irq. 1" 32 3 False]
  show ?thesis by blast
qed








subsection \<open>Stopping the other CPUs\<close>

lemma udelay1_fields:
  "elapsed_us (udelay1 env s) = Suc (elapsed_us s)"
  "events (udelay1 env s) = events s"
  "cpus_stopped (udelay1 env s) = cpus_stopped s"
  "ipi_messages (udelay1 env s) = ipi_messages s"
  by (simp_all add: udelay1_def)

lemma stop_wait_events: "events (stop_wait env t s) = events s"
  by (induction t arbitrary: s) (simp_all add: udelay1_fields)

lemma stop_wait_elapsed:
  "elapsed_us s \<le> elapsed_us (stop_wait env t s) \<and> elapsed_us (stop_wait env t s) \<le> elapsed_us s + t"
proof (induction t arbitrary: s)
  case 0
  show ?case by simp
next
  case (Suc t)
  from Suc [of "udelay1 env s"] show ?case by (simp add: udelay1_fields)
qed

text \<open>The loop gives up only when the whole timeout has been spent.\<close>

lemma stop_wait_timeout:
  "1 < num_online_cpus (stop_wait env t s) \<Longrightarrow> elapsed_us (stop_wait env t s) = elapsed_us s + t"
proof (induction t arbitrary: s)
  case 0
  show ?case by simp
next
  case (Suc t)
  show ?case
  proof (cases "1 < num_online_cpus s")
    case True
    with Suc.prems have "1 < num_online_cpus (stop_wait env t (udelay1 env s))" by simp
    from Suc.IH [OF this] True show ?thesis by (simp add: udelay1_fields)
  next
    case False
    with Suc.prems show ?thesis by simp
  qed
qed

text \<open>If the count is down to one after \<open>k\<close> microseconds, the loop is over by then.\<close>

lemma stop_wait_early:
  "k \<le> t \<Longrightarrow> \<not> 1 < num_online_cpus ((udelay1 env ^^ k) s) \<Longrightarrow>
     elapsed_us (stop_wait env t s) \<le> elapsed_us s + k
     \<and> \<not> 1 < num_online_cpus (stop_wait env t s)"
proof (induction t arbitrary: s k)
  case 0
  then show ?case by simp
next
  case (Suc t)
  show ?case
  proof (cases "1 < num_online_cpus s")
    case False
    then show ?thesis by simp
  next
    case True
    with Suc.prems(2) obtain k' where k: "k = Suc k'" by (cases k) auto
    with Suc.prems have "k' \<le> t" "\<not> 1 < num_online_cpus ((udelay1 env ^^ k') (udelay1 env s))"
      by (simp_all add: funpow_swap1)
    from Suc.IH [OF this] True k show ?thesis by (simp add: udelay1_fields)
  qed
qed


lemma send_ipi_mask_fields:
  "elapsed_us (send_ipi_mask cfg cpus op s) = elapsed_us s"
  "cpu_online_mask (send_ipi_mask cfg cpus op s) = cpu_online_mask s"
  "cpus_stopped (send_ipi_mask cfg cpus op s) = cpus_stopped s"
  "waiting_for_crash_ipi (send_ipi_mask cfg cpus op s) = waiting_for_crash_ipi s"
  "events (send_ipi_mask cfg cpus op s) = events s @
     (if irqs_pipelined cfg then [Wmb, Ipi_send_mask (ipi_desc s 0) cpus]
      else [Ipi_send_mask (ipi_desc s op) cpus])"
  by (simp_all add: send_ipi_mask_def raw_send_ipi_mask_def log_def Let_def)


lemma smp_send_stop_broadcast_fields:
  "elapsed_us (smp_send_stop_broadcast cfg this_cpu system_running s) = elapsed_us s"
  "cpu_online_mask (smp_send_stop_broadcast cfg this_cpu system_running s) = cpu_online_mask s"
  by (simp_all add: smp_send_stop_broadcast_def send_ipi_mask_fields log_def Let_def)

lemma smp_send_stop_broadcast_events:
  "1 < num_online_cpus s \<Longrightarrow>
   events (smp_send_stop_broadcast cfg this_cpu system_running s) = events s @
     (if system_running then [Pr_crit_stopping_secondary_CPUs] else []) @
     (if irqs_pipelined cfg then [Wmb, Ipi_send_mask (ipi_desc s 0) (cpu_online_mask s - {this_cpu})]
      else [Ipi_send_mask (ipi_desc s IPI_CPU_STOP) (cpu_online_mask s - {this_cpu})])"
  by (simp add: smp_send_stop_broadcast_def send_ipi_mask_fields log_def Let_def)

lemma smp_send_stop_broadcast_pending:
  "1 < num_online_cpus s \<Longrightarrow> irqs_pipelined cfg \<Longrightarrow> cpu \<in> cpu_online_mask s - {this_cpu} \<Longrightarrow>
   bit (ipi_messages (smp_send_stop_broadcast cfg this_cpu system_running s) cpu) IPI_CPU_STOP"
  by (simp add: smp_send_stop_broadcast_def send_ipi_mask_def raw_send_ipi_mask_def log_def
      Let_def bit_set_bit_iff IPI_CPU_STOP_def)

lemma stop_wait_nobody_leaves:
  "goes_offline env = (\<lambda>t. {}) \<Longrightarrow> cpu_online_mask (stop_wait env t s) = cpu_online_mask s"
  by (induction t arbitrary: s) (simp_all add: udelay1_def)

text \<open>
  Claim C8. \<open>smp_send_stop\<close> always returns: after the stop reason has been sent to every
  other online CPU (when more than one CPU is online), its wait loop makes at most
  \<open>USEC_PER_SEC\<close> steps of one microsecond. If more than one CPU is online when the loop
  ends, the whole timeout was spent and a warning with the online mask is logged; no
  warning is logged otherwise. If the online count is down to one after fewer than
  \<open>USEC_PER_SEC\<close> microseconds of waiting, the loop is over by then, before the timeout,
  and no warning is logged.
\<close>

theorem smp_send_stop_bounded:
  "(let b = smp_send_stop_broadcast cfg this_cpu system_running s;
        r = smp_send_stop cfg this_cpu system_running env s
    in elapsed_us s \<le> elapsed_us r
       \<and> elapsed_us r \<le> elapsed_us s + USEC_PER_SEC
       \<and> events r = events b @
            (if 1 < num_online_cpus r then [Pr_warn_failed_to_stop (cpu_online_mask r)] else [])
       \<and> (1 < num_online_cpus r \<longrightarrow> elapsed_us r = elapsed_us s + USEC_PER_SEC)
       \<and> (\<forall>k. k < USEC_PER_SEC \<and> \<not> 1 < num_online_cpus ((udelay1 env ^^ k) b)
             \<longrightarrow> elapsed_us r \<le> elapsed_us s + k \<and> elapsed_us r < elapsed_us s + USEC_PER_SEC
                 \<and> events r = events b)
       \<and> (1 < num_online_cpus s \<longrightarrow>
            events b = events s @
              (if system_running then [Pr_crit_stopping_secondary_CPUs] else []) @
              (if irqs_pipelined cfg
               then [Wmb, Ipi_send_mask (ipi_desc s 0) (cpu_online_mask s - {this_cpu})]
               else [Ipi_send_mask (ipi_desc s IPI_CPU_STOP) (cpu_online_mask s - {this_cpu})])
            \<and> (irqs_pipelined cfg \<longrightarrow>
                 (\<forall>cpu. cpu \<in> cpu_online_mask s - {this_cpu}
                    \<longrightarrow> bit (ipi_messages b cpu) IPI_CPU_STOP))))"
proof -
  define b where "b = smp_send_stop_broadcast cfg this_cpu system_running s"
  define w where "w = stop_wait env USEC_PER_SEC b"
  define r where "r = smp_send_stop cfg this_cpu system_running env s"
  have r: "r = (if 1 < num_online_cpus w
                then log (Pr_warn_failed_to_stop (cpu_online_mask w)) w else w)"
    by (simp add: r_def w_def b_def smp_send_stop_def Let_def)
  have eb: "elapsed_us b = elapsed_us s"
    by (simp add: b_def smp_send_stop_broadcast_fields)
  have rw: "elapsed_us r = elapsed_us w" "cpu_online_mask r = cpu_online_mask w"
    "num_online_cpus r = num_online_cpus w"
    by (simp_all add: r log_def num_online_cpus_def)
  have ew: "events w = events b" by (simp add: w_def stop_wait_events)
  have 1: "elapsed_us s \<le> elapsed_us r" "elapsed_us r \<le> elapsed_us s + USEC_PER_SEC"
    using stop_wait_elapsed [of b env USEC_PER_SEC] by (simp_all add: rw w_def eb)
  have 2: "events r = events b @
      (if 1 < num_online_cpus r then [Pr_warn_failed_to_stop (cpu_online_mask r)] else [])"
    by (simp add: rw) (simp add: r ew log_def)
  have 3: "1 < num_online_cpus r \<longrightarrow> elapsed_us r = elapsed_us s + USEC_PER_SEC"
    using stop_wait_timeout [of env USEC_PER_SEC b] by (simp add: rw w_def eb)
  have 4: "\<forall>k. k < USEC_PER_SEC \<and> \<not> 1 < num_online_cpus ((udelay1 env ^^ k) b)
      \<longrightarrow> elapsed_us r \<le> elapsed_us s + k \<and> elapsed_us r < elapsed_us s + USEC_PER_SEC
          \<and> events r = events b"
  proof (intro allI impI, elim conjE)
    fix k assume k: "k < USEC_PER_SEC" and one: "\<not> 1 < num_online_cpus ((udelay1 env ^^ k) b)"
    from k have "k \<le> USEC_PER_SEC" by simp
    from stop_wait_early [OF this one]
    have "elapsed_us w \<le> elapsed_us s + k" "\<not> 1 < num_online_cpus w"
      by (simp_all add: w_def eb)
    with k 2 show "elapsed_us r \<le> elapsed_us s + k \<and> elapsed_us r < elapsed_us s + USEC_PER_SEC
          \<and> events r = events b"
      by (simp add: rw)
  qed
  have 5: "1 < num_online_cpus s \<longrightarrow>
            events b = events s @
              (if system_running then [Pr_crit_stopping_secondary_CPUs] else []) @
              (if irqs_pipelined cfg
               then [Wmb, Ipi_send_mask (ipi_desc s 0) (cpu_online_mask s - {this_cpu})]
               else [Ipi_send_mask (ipi_desc s IPI_CPU_STOP) (cpu_online_mask s - {this_cpu})])
            \<and> (irqs_pipelined cfg \<longrightarrow>
                 (\<forall>cpu. cpu \<in> cpu_online_mask s - {this_cpu}
                    \<longrightarrow> bit (ipi_messages b cpu) IPI_CPU_STOP))"
    unfolding b_def
    using smp_send_stop_broadcast_events [of s cfg this_cpu system_running]
      smp_send_stop_broadcast_pending [of s cfg _ this_cpu system_running]
    by blast
  from 1 2 3 4 5 show ?thesis
    unfolding Let_def b_def [symmetric] r_def [symmetric] by blast
qed


theorem smp_send_stop_bounded_witness:
  "(let b = smp_send_stop_broadcast production 0 True smp_two_cpus;
        r = smp_send_stop production 0 True responsive smp_two_cpus
    in 3 < USEC_PER_SEC \<and> \<not> 1 < num_online_cpus ((udelay1 responsive ^^ 3) b)
       \<and> elapsed_us r \<le> 3 \<and> events r = events b
       \<and> 1 < num_online_cpus smp_two_cpus \<and> irqs_pipelined production
       \<and> events b = [Pr_crit_stopping_secondary_CPUs, Wmb, Ipi_send_mask 1000 {1}]
       \<and> bit (ipi_messages b 1) IPI_CPU_STOP)
   \<and> (let r = smp_send_stop production 0 True unresponsive smp_two_cpus
       in 1 < num_online_cpus r \<and> elapsed_us r = USEC_PER_SEC
          \<and> events r = [Pr_crit_stopping_secondary_CPUs, Wmb, Ipi_send_mask 1000 {1},
               Pr_warn_failed_to_stop {0, 1}])"
proof -
  define b where "b = smp_send_stop_broadcast production 0 True smp_two_cpus"
  define r where "r = smp_send_stop production 0 True responsive smp_two_cpus"
  define u where "u = smp_send_stop production 0 True unresponsive smp_two_cpus"
  have s: "cpu_online_mask smp_two_cpus = {0, 1}" "elapsed_us smp_two_cpus = 0"
    "events smp_two_cpus = []" "ipi_desc smp_two_cpus 0 = 1000"
    by (simp_all add: smp_two_cpus_def smp_registered_def smp_boot_def)
  have two: "1 < num_online_cpus smp_two_cpus" by (simp add: num_online_cpus_def s)
  have p: "irqs_pipelined production" by (simp add: production_def)
  have bf: "cpu_online_mask b = {0, 1}" "elapsed_us b = 0"
    by (simp_all add: b_def smp_send_stop_broadcast_fields s)
  have k: "3 < USEC_PER_SEC" by (simp add: USEC_PER_SEC_def)
  have gone: "\<not> 1 < num_online_cpus ((udelay1 responsive ^^ 3) b)"
    by (simp add: numeral_3_eq_3 udelay1_def num_online_cpus_def bf responsive_def)
  note t = smp_send_stop_bounded [of production 0 True smp_two_cpus responsive,
      unfolded Let_def, folded b_def r_def]
  from t k gone have early: "elapsed_us r \<le> elapsed_us smp_two_cpus + 3 \<and> events r = events b"
    by blast
  from t two p have eb: "events b = [Pr_crit_stopping_secondary_CPUs, Wmb, Ipi_send_mask 1000 {1}]"
    by (simp add: s insert_Diff_if)
  have one: "(1::nat) \<in> cpu_online_mask smp_two_cpus - {0}" by (simp add: s)
  from t two p one have pend: "bit (ipi_messages b 1) IPI_CPU_STOP" by blast
  have stay: "cpu_online_mask u = {0, 1}"
    by (simp add: u_def smp_send_stop_def Let_def log_def stop_wait_nobody_leaves
        unresponsive_def smp_send_stop_broadcast_fields s)
  then have still: "1 < num_online_cpus u" by (simp add: num_online_cpus_def)
  note t' = smp_send_stop_bounded [of production 0 True smp_two_cpus unresponsive,
      unfolded Let_def, folded b_def u_def]
  from t' still have late: "elapsed_us u = USEC_PER_SEC" by (simp add: s)
  from t' still have "events u = events b @ [Pr_warn_failed_to_stop (cpu_online_mask u)]"
    by simp
  with eb stay have eu: "events u = [Pr_crit_stopping_secondary_CPUs, Wmb,
      Ipi_send_mask 1000 {1}, Pr_warn_failed_to_stop {0, 1}]"
    by simp
  from k gone early eb two p pend still late eu show ?thesis
    unfolding Let_def b_def [symmetric] r_def [symmetric] u_def [symmetric]
    by (simp add: s)
qed

subsection \<open>Crash stop\<close>











subsection \<open>Receiving multiplexed interrupts\<close>

lemma bit0_examples:
  "set_bit 0 (0 :: ulong) = 1" "set_bit 0 (1 :: ulong) = 1" "unset_bit 0 (1 :: ulong) = 0"
  "ffs 1 = 1"
  by code_simp+

lemma resched_twice_fields:
  "ipi_messages resched_twice 0 = 1"
  "ipi_virq_base resched_twice = 16"
  "ipi_counts resched_twice 0 0 = 0"
  "events resched_twice = [Wmb, Ipi_send_mask 1000 {0}, Wmb, Ipi_send_mask 1000 {0}]"
  by (simp_all add: resched_twice_def send_ipi_single_def raw_send_ipi_single_def log_def
      Let_def production_def smp_registered_def smp_boot_def IPI_RESCHEDULE_def bit0_examples)

lemma handle_IPI_drained:
  "ipi_messages s cpu = 0 \<Longrightarrow> handle_IPI cfg h cpu s = Returned s"
  by (simp add: handle_IPI.simps)

lemma handle_IPI_step:
  "ipi_messages s cpu \<noteq> 0 \<Longrightarrow> unat (ffs (ucast (ipi_messages s cpu)) - 1) < IPI_MAX \<Longrightarrow>
   handle_IPI cfg h cpu s =
     (case raw_handle_IPI cfg h cpu (ffs (ucast (ipi_messages s cpu)) - 1)
             (count_ipi cpu (unat (ffs (ucast (ipi_messages s cpu)) - 1))
                (clear_pending cpu (unat (ffs (ucast (ipi_messages s cpu)) - 1)) s)) of
        Returned s' \<Rightarrow> handle_IPI cfg h cpu s'
      | Parked s' \<Rightarrow> Parked s'
      | Fault \<Rightarrow> Fault)"
  by (subst handle_IPI.simps) (simp add: Let_def)

lemma raw_handle_IPI_Returned:
  "raw_handle_IPI cfg h cpu irq s = Returned s' \<Longrightarrow>
     ipi_messages s' = ipi_messages s \<and> ipi_counts s' = ipi_counts s
     \<and> ipi_virq_base s' = ipi_virq_base s"
  by (auto simp: raw_handle_IPI_def Let_def log_def ipi_stop_def ipi_cpu_crash_stop_def
      split: if_splits)

lemma ffs_lowest:
  assumes "unat (ffs (ucast (m :: ulong)) - 1) < IPI_MAX"
  shows "bit m (unat (ffs (ucast m) - 1))"
proof (cases "find (bit (ucast m :: cint)) [0..<32]")
  case None
  then have "ffs (ucast m) - 1 = - 1" by (simp add: ffs_def)
  with assms show ?thesis
    by (simp add: IPI_MAX_def unsigned_minus_1_eq_mask mask_eq_exp_minus_1)
next
  case (Some i)
  then have i: "i < 32" "bit (ucast m :: cint) i" by (auto simp: find_Some_iff)
  from Some have "ffs (ucast m) - 1 = of_nat i" by (simp add: ffs_def)
  with i(1) have "unat (ffs (ucast m) - 1) = i" by (simp add: of_nat_inverse)
  with i(2) show ?thesis by (simp add: bit_ucast_iff)
qed

text \<open>
  What holds of the receive loop whatever \<open>ipi_virq_base\<close> is: when it returns, the
  pending mask of the CPU is zero and the counter of every reason whose bit was pending
  has been incremented once, the other counters not at all.
\<close>

lemma handle_IPI_drains:
  "handle_IPI cfg h cpu s = Returned s' \<Longrightarrow>
     ipi_messages s' cpu = 0
     \<and> (\<forall>i. ipi_counts s' cpu i
            = ipi_counts s cpu i + (if bit (ipi_messages s cpu) i then 1 else 0))"
proof (induction cfg h cpu s rule: handle_IPI.induct)
  case (1 cfg h cpu s)
  let ?m = "ipi_messages s cpu"
  let ?n = "ffs (ucast ?m) - 1"
  let ?s1 = "count_ipi cpu (unat ?n) (clear_pending cpu (unat ?n) s)"
  have unfold: "handle_IPI cfg h cpu s =
     (if ?m = 0 then Returned s
      else if IPI_MAX \<le> unat ?n then Fault
      else (case raw_handle_IPI cfg h cpu ?n ?s1 of
              Returned sa \<Rightarrow> handle_IPI cfg h cpu sa
            | Parked sa \<Rightarrow> Parked sa
            | Fault \<Rightarrow> Fault))"
    by (subst handle_IPI.simps) (simp add: Let_def)
  show ?case
  proof (cases "?m = 0")
    case True
    with "1.prems" unfold show ?thesis by simp
  next
    case False
    with "1.prems" unfold have small: "\<not> IPI_MAX \<le> unat ?n"
      by (auto split: if_splits)
    with False "1.prems" unfold obtain sa where
      disp: "raw_handle_IPI cfg h cpu ?n ?s1 = Returned sa"
      and rest: "handle_IPI cfg h cpu sa = Returned s'"
      by (cases "raw_handle_IPI cfg h cpu ?n ?s1") auto
    from "1.IH" [OF False refl small disp rest]
    have ih: "ipi_messages s' cpu = 0"
      "\<And>i. ipi_counts s' cpu i
            = ipi_counts sa cpu i + (if bit (ipi_messages sa cpu) i then 1 else 0)"
      by simp_all
    from raw_handle_IPI_Returned [OF disp]
    have sa: "ipi_messages sa cpu = unset_bit (unat ?n) ?m"
      "\<And>i. ipi_counts sa cpu i = (if i = unat ?n then ipi_counts s cpu i + 1 else ipi_counts s cpu i)"
      by (simp_all add: count_ipi_def clear_pending_def)
    from small have low: "bit ?m (unat ?n)" by (intro ffs_lowest) simp
    have "ipi_counts s' cpu i = ipi_counts s cpu i + (if bit ?m i then 1 else 0)" for i
      using low by (simp add: ih(2) sa bit_unset_bit_iff)
    with ih(1) show ?thesis by simp
  qed
qed

text \<open>
  The decoding that goes wrong: \<open>handle_IPI\<close> hands the reason \<open>ipinr\<close> to
  \<open>__handle_IPI\<close>, which takes an interrupt number and subtracts \<open>ipi_virq_base\<close>. Once a
  range is registered the reschedule bit never reaches \<open>scheduler_ipi\<close>, while the
  unpipelined handler, given the interrupt number of the reschedule line, does.
\<close>

lemma log_inject: "(log a s = log b s) = (a = b)"
proof
  assume "log a s = log b s"
  then have "events (log a s) = events (log b s)" by simp
  then show "a = b" by (simp add: log_def)
qed simp

lemma raw_handle_IPI_reason_as_irq:
  assumes "ipi_virq_base s \<noteq> 0"
  shows "raw_handle_IPI cfg h cpu (of_nat IPI_RESCHEDULE) s \<noteq> Returned (log Scheduler_ipi s)"
proof -
  from assms have ne: "of_nat IPI_RESCHEDULE - ipi_virq_base s \<noteq> of_nat IPI_RESCHEDULE"
    by (simp add: IPI_RESCHEDULE_def)
  show ?thesis
    unfolding raw_handle_IPI_def Let_def ipi_stop_def ipi_cpu_crash_stop_def
    using ne by (simp add: log_inject)
qed

lemma handle_IPI_unpipelined_reschedule:
  "handle_IPI_unpipelined cfg h cpu (ipi_virq_base s + of_nat IPI_RESCHEDULE) s
     = Returned (log Scheduler_ipi s)"
  by (simp add: handle_IPI_unpipelined_def raw_handle_IPI_def Let_def)


lemma raw_handle_IPI_unregistered:
  "ipi_virq_base s = 0 \<Longrightarrow>
     raw_handle_IPI cfg h cpu (of_nat IPI_RESCHEDULE) s = Returned (log Scheduler_ipi s)"
  by (simp add: raw_handle_IPI_def Let_def)

text \<open>
  Claim C1, at an input where the code departs from it. The range of lines is registered
  from line 16 and two senders have asked CPU 0 to reschedule, so the reschedule bit is
  the one pending bit of CPU 0. \<open>handle_IPI\<close> on CPU 0 returns with the mask drained and the
  reschedule counter incremented once, but the one dispatch it makes is the warning for
  the unhandled reason \<open>0 - 16\<close>: \<open>scheduler_ipi\<close> is not called.
\<close>

theorem handle_IPI_misdispatch:
  "handle_IPI production (\<lambda>cpu. False) 0 resched_twice =
     Returned (resched_twice\<lparr>ipi_messages := (ipi_messages resched_twice)(0 := 0),
        ipi_counts := (ipi_counts resched_twice)(0 := (ipi_counts resched_twice 0)(0 := 1)),
        events := events resched_twice @ [Pr_warn_unhandled_IPI 0 (- 16)]\<rparr>)
   \<and> ipi_virq_base resched_twice = 16
   \<and> ipi_messages resched_twice 0 = 1
   \<and> ipi_counts resched_twice 0 IPI_RESCHEDULE = 0
   \<and> events resched_twice = [Wmb, Ipi_send_mask 1000 {0}, Wmb, Ipi_send_mask 1000 {0}]"
proof -
  let ?s = resched_twice
  have step: "handle_IPI production (\<lambda>cpu. False) 0 ?s =
     (case raw_handle_IPI production (\<lambda>cpu. False) 0 0 (count_ipi 0 0 (clear_pending 0 0 ?s)) of
        Returned s' \<Rightarrow> handle_IPI production (\<lambda>cpu. False) 0 s'
      | Parked s' \<Rightarrow> Parked s'
      | Fault \<Rightarrow> Fault)"
    using handle_IPI_step [of ?s 0 production "\<lambda>cpu. False"]
    by (simp add: resched_twice_fields bit0_examples IPI_MAX_def)
  have disp: "raw_handle_IPI production (\<lambda>cpu. False) 0 0 (count_ipi 0 0 (clear_pending 0 0 ?s))
      = Returned (?s\<lparr>ipi_messages := (ipi_messages ?s)(0 := 0),
        ipi_counts := (ipi_counts ?s)(0 := (ipi_counts ?s 0)(0 := 1)),
        events := events ?s @ [Pr_warn_unhandled_IPI 0 (- 16)]\<rparr>)"
    by (simp add: raw_handle_IPI_def count_ipi_def clear_pending_def log_def Let_def
        resched_twice_fields production_def IPI_RESCHEDULE_def IPI_CALL_FUNC_def
        IPI_CPU_STOP_def IPI_CPU_CRASH_STOP_def IPI_IRQ_WORK_def IPI_TIMER_def bit0_examples)
  have "handle_IPI production (\<lambda>cpu. False) 0 ?s =
     Returned (?s\<lparr>ipi_messages := (ipi_messages ?s)(0 := 0),
        ipi_counts := (ipi_counts ?s)(0 := (ipi_counts ?s 0)(0 := 1)),
        events := events ?s @ [Pr_warn_unhandled_IPI 0 (- 16)]\<rparr>)"
    by (simp only: step disp outcome.case) (simp add: handle_IPI_drained)
  then show ?thesis by (simp add: resched_twice_fields IPI_RESCHEDULE_def)
qed


end
